theory Spec2Isabelle
  imports Main "HOL-Library.AList"
begin

section \<open>The framework types that \<open>eventbridge.ts\<close> builds on\<close>

text \<open>
  \<open>lib/http/eventbridge.ts\<close> holds one class, \<open>HttpEventBridgeIntegration\<close>, with the
  method \<open>bind\<close> and the private helper \<open>createDefaultParameterMapping\<close>. Everything they
  call (\<open>aws-apigatewayv2\<close>, \<open>aws-events\<close>, \<open>aws-iam\<close>, the construct tree) is imported and
  not among the sources; those parts are modelled below from the specification and from
  what \<open>test/http/eventbridge.test.ts\<close> observes, each one marked as such.
\<close>

subsection \<open>Parameter mappings\<close>

text \<open>
  Modelled from the spec: the class \<open>ParameterMapping\<close> of \<open>aws-apigatewayv2\<close> is missing.
  Section 3 of the specification describes it as an ordered mapping of string key to
  string value with no de-duplication beyond normal mapping semantics: the last write
  wins for a key. A new key goes to the end; a key written again keeps its place.
\<close>

type_synonym ParameterMapping = "(string \<times> string) list"

definition ParameterMapping_new :: ParameterMapping where
  "ParameterMapping_new = []"

definition custom :: "ParameterMapping \<Rightarrow> string \<Rightarrow> string \<Rightarrow> ParameterMapping" where
  "custom m k v = AList.update k v m"

subsection \<open>Event buses\<close>

text \<open>
  The interface \<open>events.IEventBus\<close>: \<open>bind\<close> reads its attributes \<open>eventBusArn\<close> and
  \<open>eventBusName\<close> and nothing else (section 6: a resource handle exposing an identifier
  attribute and a name attribute).
\<close>

record IEventBus =
  eventBusArn :: string
  eventBusName :: string

text \<open>
  Modelled from the spec: \<open>EventBus.fromEventBusArn\<close> of \<open>aws-events\<close> is missing. By
  section 8, item 5, a bus referenced only by its ARN has as its name the name parsed out
  of that ARN. An ARN is laid out as
  \<open>arn:<partition>:<service>:<region>:<account>:<resource-type>/<name>\<close> (section 6 shows
  that layout for the wildcard ARN), so the name is what follows the first slash of the
  part after the fifth colon. A text with fewer colons or with no slash there has no name.
\<close>

fun afterChar :: "char \<Rightarrow> string \<Rightarrow> string option" where
  "afterChar c [] = None"
| "afterChar c (x # xs) = (if x = c then Some xs else afterChar c xs)"

fun afterFields :: "nat \<Rightarrow> string \<Rightarrow> string option" where
  "afterFields 0 s = Some s"
| "afterFields (Suc n) s =
     (case afterChar CHR '':'' s of None \<Rightarrow> None | Some rest \<Rightarrow> afterFields n rest)"

definition parseResourceName :: "string \<Rightarrow> string option" where
  "parseResourceName arn =
     (case afterFields 5 arn of None \<Rightarrow> None | Some res \<Rightarrow> afterChar CHR ''/'' res)"

definition fromEventBusArn :: "string \<Rightarrow> IEventBus option" where
  "fromEventBusArn arn =
     (case parseResourceName arn of
        None \<Rightarrow> None
      | Some n \<Rightarrow> Some \<lparr>eventBusArn = arn, eventBusName = n\<rparr>)"

subsection \<open>Stacks and ARN formatting\<close>

text \<open>
  Modelled from the spec: \<open>Stack.formatArn\<close> of the framework core is missing. Sections 4.1
  (step 2) and 6 give its result for the components \<open>bind\<close> passes:
  \<open>arn:<partition>:events:<region>:<account>:event-bus/*\<close>, with partition, region and
  account those of the stack.
\<close>

record Stack =
  partition_s :: string
  region :: string
  account :: string

record ArnComponents =
  service :: string
  resource :: string
  resourceName :: string

definition formatArn :: "Stack \<Rightarrow> ArnComponents \<Rightarrow> string" where
  "formatArn st c =
     ''arn:'' @ partition_s st @ '':'' @ service c @ '':'' @ region st @ '':'' @ account st
       @ '':'' @ resource c @ ''/'' @ resourceName c"

subsection \<open>Identity and access management\<close>

text \<open>
  Modelled from the spec: \<open>aws-iam\<close> is missing. A policy statement carries an effect, an
  optional statement id, principals, actions and resources; \<open>bind\<close> passes effect, sid,
  actions and resources, and the principals of such a statement are empty. A role is
  created from the principal that may assume it; its trust policy is the single statement
  that allows that principal the assume-role action (section 6: principal = API-gateway
  service principal, action = assume-role; the test reads \<open>sts:AssumeRole\<close>, effect
  \<open>Allow\<close>). \<open>addToPolicy\<close> appends a statement to the role's own policy.
\<close>

datatype Effect = ALLOW | DENY

datatype Principal = ServicePrincipal string

record PolicyStatementProps =
  effect :: Effect
  sid :: string
  actions :: "string list"
  resources :: "string list"

record PolicyStatement =
  st_effect :: Effect
  st_sid :: "string option"
  st_principals :: "Principal list"
  st_actions :: "string list"
  st_resources :: "string list"

definition PolicyStatement_new :: "PolicyStatementProps \<Rightarrow> PolicyStatement" where
  "PolicyStatement_new p =
     \<lparr>st_effect = effect p, st_sid = Some (sid p), st_principals = [],
      st_actions = actions p, st_resources = resources p\<rparr>"

record RoleProps =
  assumedBy :: Principal

record Role =
  assumeRolePolicy :: "PolicyStatement list"
  policy :: "PolicyStatement list"

definition assumeRoleStatement :: "Principal \<Rightarrow> PolicyStatement" where
  "assumeRoleStatement p =
     \<lparr>st_effect = ALLOW, st_sid = None, st_principals = [p],
      st_actions = [''sts:AssumeRole''], st_resources = []\<rparr>"

subsection \<open>The construct tree\<close>

text \<open>
  Modelled from the spec: the construct tree of the framework is missing. The scope handed
  to \<open>bind\<close> (section 4.1: a handle to the surrounding deployment scope, used to create
  the role) is a node of that tree: it has a path and named children, of which the roles
  are the ones that matter here. A construct is created under a scope with an id. The
  specification leaves failures to the framework's validation layer (section 7) without
  listing them; the one that creating a construct can meet is the tree's refusal of an id
  that a child of the scope already has, and \<open>Role_new\<close> returns it as an error. A role is
  an object shared between the tree and whoever holds it: it is referred to by the path of
  its scope and its id, and \<open>addToPolicy\<close> changes the role that sits in the tree.
\<close>

datatype Child = RoleChild Role | OtherChild string

record Construct =
  path :: string
  children :: "(string \<times> Child) list"

record RoleRef =
  refScope :: string
  refId :: string

datatype error = DuplicateConstructId string

definition Role_new :: "Construct \<Rightarrow> string \<Rightarrow> RoleProps \<Rightarrow> error + (RoleRef \<times> Construct)" where
  "Role_new sc cid props =
     (case map_of (children sc) cid of
        Some c \<Rightarrow> Inl (DuplicateConstructId cid)
      | None \<Rightarrow>
          Inr (\<lparr>refScope = path sc, refId = cid\<rparr>,
               sc\<lparr>children := children sc @
                    [(cid, RoleChild \<lparr>assumeRolePolicy = [assumeRoleStatement (assumedBy props)],
                                      policy = []\<rparr>)]\<rparr>))"

fun addStatement :: "PolicyStatement \<Rightarrow> Child \<Rightarrow> Child" where
  "addStatement st (RoleChild r) = RoleChild (r\<lparr>policy := policy r @ [st]\<rparr>)"
| "addStatement st (OtherChild t) = OtherChild t"

definition addToPolicy :: "RoleRef \<Rightarrow> PolicyStatement \<Rightarrow> Construct \<Rightarrow> Construct" where
  "addToPolicy r st sc =
     (if refScope r = path sc
      then sc\<lparr>children := AList.map_entry (refId r) (addStatement st) (children sc)\<rparr>
      else sc)"

definition lookupRole :: "Construct \<Rightarrow> RoleRef \<Rightarrow> Role option" where
  "lookupRole sc r =
     (if refScope r = path sc
      then (case map_of (children sc) (refId r) of
              Some (RoleChild role) \<Rightarrow> Some role
            | Some (OtherChild t) \<Rightarrow> None
            | None \<Rightarrow> None)
      else None)"

subsection \<open>HTTP API integrations\<close>

text \<open>
  Modelled from the spec: the enumerations and the option and result types of
  \<open>aws-apigatewayv2\<close> are missing. Section 6 gives the literal each enumeration member
  stands for in the integration resource; \<open>IntegrationCredentials.fromRole\<close> keeps the
  reference to the role (section 3: an opaque reference to the created role).
\<close>

definition VERSION_1_0 :: string where
  "VERSION_1_0 = ''1.0''"

definition AWS_PROXY :: string where
  "AWS_PROXY = ''AWS_PROXY''"

definition EVENTBRIDGE_PUT_EVENTS :: string where
  "EVENTBRIDGE_PUT_EVENTS = ''EventBridge-PutEvents''"

definition INTERNET :: string where
  "INTERNET = ''INTERNET''"

datatype IntegrationCredentials = fromRole RoleRef

record HttpRoute =
  stack :: Stack

record HttpRouteIntegrationBindOptions =
  route :: HttpRoute
  scope :: Construct

record HttpRouteIntegrationConfig =
  payloadFormatVersion :: string
  type :: string
  subtype :: string
  credentials :: IntegrationCredentials
  connectionType :: string
  parameterMapping_cfg :: ParameterMapping

section \<open>\<open>HttpEventBridgeIntegration\<close>\<close>

text \<open>
  The properties of the integration, both optional. The field \<open>parameterMapping\<close> of the
  returned configuration is \<open>parameterMapping_cfg\<close> above, since two records cannot share a
  field name.
\<close>

record HttpEventBridgeIntegrationProps =
  parameterMapping :: "ParameterMapping option"
  eventBus :: "IEventBus option"

text \<open>\<open>createDefaultParameterMapping\<close>, lines 79 to 91.\<close>

definition createDefaultParameterMapping :: "HttpEventBridgeIntegrationProps \<Rightarrow> ParameterMapping" where
  "createDefaultParameterMapping props =
     (let mapping =
            custom (custom (custom ParameterMapping_new
              ''Detail'' ''$request.body.Detail'')
              ''DetailType'' ''$request.body.DetailType'')
              ''Source'' ''$request.body.Source''
      in case eventBus props of
           Some bus \<Rightarrow> custom mapping ''EventBusName'' (eventBusName bus)
         | None \<Rightarrow> mapping)"

text \<open>
  \<open>bind\<close>, lines 43 to 77. The role is created first, and a failure of its constructor
  leaves \<open>bind\<close> at once; the result is the configuration together with the scope as
  \<open>bind\<close> leaves it.
\<close>

definition bind ::
  "HttpEventBridgeIntegrationProps \<Rightarrow> HttpRouteIntegrationBindOptions
     \<Rightarrow> error + (HttpRouteIntegrationConfig \<times> Construct)" where
  "bind props options =
     (case Role_new (scope options) ''InvokeRole''
             \<lparr>assumedBy = ServicePrincipal ''apigateway.amazonaws.com''\<rparr> of
        Inl e \<Rightarrow> Inl e
      | Inr (invokeRole, sc) \<Rightarrow>
          (let busArn =
                 (case eventBus props of
                    Some bus \<Rightarrow> eventBusArn bus
                  | None \<Rightarrow>
                      formatArn (stack (route options))
                        \<lparr>service = ''events'', resource = ''event-bus'', resourceName = ''*''\<rparr>);
               sc' = addToPolicy invokeRole
                       (PolicyStatement_new
                          \<lparr>effect = ALLOW, sid = ''AllowEventBridgePutEvents'',
                           actions = [''events:PutEvents''], resources = [busArn]\<rparr>)
                       sc
           in Inr (\<lparr>payloadFormatVersion = VERSION_1_0,
                    type = AWS_PROXY,
                    subtype = EVENTBRIDGE_PUT_EVENTS,
                    credentials = fromRole invokeRole,
                    connectionType = INTERNET,
                    parameterMapping_cfg =
                      (case parameterMapping props of
                         Some m \<Rightarrow> m
                       | None \<Rightarrow> createDefaultParameterMapping props)\<rparr>,
                   sc')))"

section \<open>Inputs taken from the tests\<close>

text \<open>
  The inputs of \<open>test/http/eventbridge.test.ts\<close>, for evaluating \<open>bind\<close>: a stack, the
  route \<open>EventBridgeRoute\<close> of the stack as the scope, here holding one child that is not
  a role, the bus imported by ARN in the test \<open>can be used with imported event bus\<close>, and
  the mapping of the test \<open>with custom parameterMapping\<close>.
\<close>

definition test_stack :: Stack where
  "test_stack = \<lparr>partition_s = ''aws'', region = ''us-east-1'', account = ''123456789012''\<rparr>"

definition test_options :: HttpRouteIntegrationBindOptions where
  "test_options =
     \<lparr>route = \<lparr>stack = test_stack\<rparr>,
      scope = \<lparr>path = ''stack/EventBridgeRoute'',
               children = [(''Resource'', OtherChild ''AWS::ApiGatewayV2::Route'')]\<rparr>\<rparr>"

definition imported_arn :: string where
  "imported_arn = ''arn:aws:events:us-east-1:123456789012:event-bus/my-event-bus''"

definition imported_bus :: IEventBus where
  "imported_bus = \<lparr>eventBusArn = imported_arn, eventBusName = ''my-event-bus''\<rparr>"

definition test_custom_mapping :: ParameterMapping where
  "test_custom_mapping =
     custom (custom (custom (custom (custom (custom ParameterMapping_new
       ''Detail'' ''$request.body.detail'')
       ''DetailType'' ''$request.body.detailType'')
       ''Source'' ''$request.body.source'')
       ''EventBusName'' (eventBusName imported_bus))
       ''Resources'' ''$request.body.resources'')
       ''Time'' ''$request.body.time''"

section \<open>What \<open>bind\<close> computes\<close>

subsection \<open>Auxiliary facts\<close>

lemma map_entry_fresh:
  "map_of xs k = None \<Longrightarrow> AList.map_entry k f (xs @ [(k, v)]) = xs @ [(k, f v)]"
  by (induction xs) (auto split: if_splits)

lemma bind_fresh:
  assumes "map_of (children (scope options)) ''InvokeRole'' = None"
  shows "bind props options =
     Inr (\<lparr>payloadFormatVersion = ''1.0'', type = ''AWS_PROXY'', subtype = ''EventBridge-PutEvents'',
           credentials = fromRole \<lparr>refScope = path (scope options), refId = ''InvokeRole''\<rparr>,
           connectionType = ''INTERNET'',
           parameterMapping_cfg =
             (case parameterMapping props of
                Some m \<Rightarrow> m
              | None \<Rightarrow> createDefaultParameterMapping props)\<rparr>,
          (scope options)\<lparr>children := children (scope options) @
             [(''InvokeRole'',
               RoleChild
                 \<lparr>assumeRolePolicy =
                    [\<lparr>st_effect = ALLOW, st_sid = None,
                      st_principals = [ServicePrincipal ''apigateway.amazonaws.com''],
                      st_actions = [''sts:AssumeRole''], st_resources = []\<rparr>],
                  policy =
                    [\<lparr>st_effect = ALLOW, st_sid = Some ''AllowEventBridgePutEvents'',
                      st_principals = [], st_actions = [''events:PutEvents''],
                      st_resources =
                        [case eventBus props of
                           Some bus \<Rightarrow> eventBusArn bus
                         | None \<Rightarrow>
                             ''arn:'' @ partition_s (stack (route options)) @ '':events:''
                               @ region (stack (route options)) @ '':''
                               @ account (stack (route options)) @ '':event-bus/*'']\<rparr>]\<rparr>)]\<rparr>)"
  using assms
  by (simp add: bind_def Role_new_def addToPolicy_def map_entry_fresh PolicyStatement_new_def
      formatArn_def VERSION_1_0_def AWS_PROXY_def EVENTBRIDGE_PUT_EVENTS_def INTERNET_def
      assumeRoleStatement_def split: option.splits)

lemma bind_taken:
  assumes "map_of (children (scope options)) ''InvokeRole'' = Some c"
  shows "bind props options = Inl (DuplicateConstructId ''InvokeRole'')"
  using assms by (simp add: bind_def Role_new_def)

lemma bind_Inr_fresh:
  assumes "bind props options = Inr (cfg, g)"
  shows "map_of (children (scope options)) ''InvokeRole'' = None"
proof (cases "map_of (children (scope options)) ''InvokeRole''")
  case None
  then show ?thesis .
next
  case (Some c)
  from bind_taken [OF this] assms show ?thesis by simp
qed

lemma lookupRole_created:
  assumes "map_of (children sc) cid = None"
  shows "lookupRole (sc\<lparr>children := children sc @ [(cid, RoleChild role)]\<rparr>)
           \<lparr>refScope = path sc, refId = cid\<rparr> = Some role"
  using assms by (simp add: lookupRole_def map_add_def)

lemma default_mapping_with_bus:
  "eventBus props = Some bus \<Longrightarrow>
   createDefaultParameterMapping props =
     [(''Detail'', ''$request.body.Detail''), (''DetailType'', ''$request.body.DetailType''),
      (''Source'', ''$request.body.Source''), (''EventBusName'', eventBusName bus)]"
  by (simp add: createDefaultParameterMapping_def custom_def ParameterMapping_new_def)

lemma default_mapping_without_bus:
  "eventBus props = None \<Longrightarrow>
   createDefaultParameterMapping props =
     [(''Detail'', ''$request.body.Detail''), (''DetailType'', ''$request.body.DetailType''),
      (''Source'', ''$request.body.Source'')]"
  by (simp add: createDefaultParameterMapping_def custom_def ParameterMapping_new_def)

lemma afterChar_append:
  "c \<notin> set xs \<Longrightarrow> afterChar c (xs @ c # ys) = Some ys"
  by (induction xs) auto

lemma parseResourceName_wellformed:
  assumes "CHR '':'' \<notin> set p" "CHR '':'' \<notin> set s" "CHR '':'' \<notin> set r" "CHR '':'' \<notin> set a"
    and "CHR ''/'' \<notin> set rt"
  shows "parseResourceName
           (''arn:'' @ p @ '':'' @ s @ '':'' @ r @ '':'' @ a @ '':'' @ rt @ ''/'' @ name) = Some name"
  using assms by (simp add: parseResourceName_def eval_nat_numeral afterChar_append)


lemma bind_cases:
  assumes "bind props options = Inr (cfg, g)"
  shows "map_of (children (scope options)) ''InvokeRole'' = None
         \<and> bind props options =
     Inr (\<lparr>payloadFormatVersion = ''1.0'', type = ''AWS_PROXY'', subtype = ''EventBridge-PutEvents'',
           credentials = fromRole \<lparr>refScope = path (scope options), refId = ''InvokeRole''\<rparr>,
           connectionType = ''INTERNET'',
           parameterMapping_cfg =
             (case parameterMapping props of
                Some m \<Rightarrow> m
              | None \<Rightarrow> createDefaultParameterMapping props)\<rparr>,
          (scope options)\<lparr>children := children (scope options) @
             [(''InvokeRole'',
               RoleChild
                 \<lparr>assumeRolePolicy =
                    [\<lparr>st_effect = ALLOW, st_sid = None,
                      st_principals = [ServicePrincipal ''apigateway.amazonaws.com''],
                      st_actions = [''sts:AssumeRole''], st_resources = []\<rparr>],
                  policy =
                    [\<lparr>st_effect = ALLOW, st_sid = Some ''AllowEventBridgePutEvents'',
                      st_principals = [], st_actions = [''events:PutEvents''],
                      st_resources =
                        [case eventBus props of
                           Some bus \<Rightarrow> eventBusArn bus
                         | None \<Rightarrow>
                             ''arn:'' @ partition_s (stack (route options)) @ '':events:''
                               @ region (stack (route options)) @ '':''
                               @ account (stack (route options)) @ '':event-bus/*'']\<rparr>]\<rparr>)]\<rparr>)"
  using bind_Inr_fresh [OF assms] bind_fresh by blast

lemma test_options_fresh:
  "map_of (children (scope test_options)) ''InvokeRole'' = None"
  by (simp add: test_options_def)

subsection \<open>The default mapping and the scope of the grant\<close>

text \<open>
  Claim C1. When the caller supplied no custom parameter mapping and supplied an event bus
  with identifier \<open>I\<close> and name \<open>N\<close>, the parameter mapping of the returned configuration
  has exactly the four keys \<open>Detail\<close>, \<open>DetailType\<close>, \<open>Source\<close>, \<open>EventBusName\<close>, the first
  three mapped to \<open>$request.body.Detail\<close>, \<open>$request.body.DetailType\<close>,
  \<open>$request.body.Source\<close> and the last to \<open>N\<close>, and the one statement attached to the
  created role has \<open>I\<close> as its resource.
\<close>

theorem bind_default_mapping_with_bus:
  assumes "bind props options = Inr (cfg, g)"
    and "parameterMapping props = None"
    and "eventBus props = Some \<lparr>eventBusArn = I, eventBusName = N\<rparr>"
  shows "parameterMapping_cfg cfg =
           [(''Detail'', ''$request.body.Detail''),
            (''DetailType'', ''$request.body.DetailType''),
            (''Source'', ''$request.body.Source''),
            (''EventBusName'', N)]
         \<and> (\<exists>r role st. credentials cfg = fromRole r \<and> lookupRole g r = Some role
               \<and> policy role = [st] \<and> st_resources st = [I])"
proof -
  from bind_cases [OF assms(1)] assms show ?thesis
    by (auto simp add: default_mapping_with_bus lookupRole_created)
qed

theorem bind_default_mapping_with_bus_witness:
  "\<exists>cfg g. bind \<lparr>parameterMapping = None,
                  eventBus = Some \<lparr>eventBusArn = imported_arn, eventBusName = ''my-event-bus''\<rparr>\<rparr>
             test_options = Inr (cfg, g)
     \<and> parameterMapping_cfg cfg =
           [(''Detail'', ''$request.body.Detail''),
            (''DetailType'', ''$request.body.DetailType''),
            (''Source'', ''$request.body.Source''),
            (''EventBusName'', ''my-event-bus'')]
     \<and> (\<exists>r role st. credentials cfg = fromRole r \<and> lookupRole g r = Some role
               \<and> policy role = [st] \<and> st_resources st = [imported_arn])"
proof -
  obtain cfg g where h:
    "bind \<lparr>parameterMapping = None,
           eventBus = Some \<lparr>eventBusArn = imported_arn, eventBusName = ''my-event-bus''\<rparr>\<rparr>
       test_options = Inr (cfg, g)"
    using bind_fresh [OF test_options_fresh] by blast
  from bind_default_mapping_with_bus [OF h] h show ?thesis
    by simp
qed

text \<open>
  Claim C2. When the caller supplied neither a custom parameter mapping nor an event bus,
  the parameter mapping has exactly the three keys \<open>Detail\<close>, \<open>DetailType\<close>, \<open>Source\<close> with
  their request-body templates and no entry for \<open>EventBusName\<close>, and the resource of the
  statement is the wildcard ARN \<open>arn:<partition>:events:<region>:<account>:event-bus/*\<close> of
  the stack of the route.
\<close>

theorem bind_default_mapping_without_bus:
  assumes "bind props options = Inr (cfg, g)"
    and "parameterMapping props = None"
    and "eventBus props = None"
  shows "parameterMapping_cfg cfg =
           [(''Detail'', ''$request.body.Detail''),
            (''DetailType'', ''$request.body.DetailType''),
            (''Source'', ''$request.body.Source'')]
         \<and> map_of (parameterMapping_cfg cfg) ''EventBusName'' = None
         \<and> (\<exists>r role st. credentials cfg = fromRole r \<and> lookupRole g r = Some role
               \<and> policy role = [st]
               \<and> st_resources st =
                   [''arn:'' @ partition_s (stack (route options)) @ '':events:''
                      @ region (stack (route options)) @ '':''
                      @ account (stack (route options)) @ '':event-bus/*''])"
proof -
  from bind_cases [OF assms(1)] assms show ?thesis
    by (auto simp add: default_mapping_without_bus lookupRole_created)
qed

theorem bind_default_mapping_without_bus_witness:
  "\<exists>cfg g. bind \<lparr>parameterMapping = None, eventBus = None\<rparr> test_options = Inr (cfg, g)
     \<and> parameterMapping_cfg cfg =
           [(''Detail'', ''$request.body.Detail''),
            (''DetailType'', ''$request.body.DetailType''),
            (''Source'', ''$request.body.Source'')]
     \<and> map_of (parameterMapping_cfg cfg) ''EventBusName'' = None
     \<and> (\<exists>r role st. credentials cfg = fromRole r \<and> lookupRole g r = Some role
               \<and> policy role = [st]
               \<and> st_resources st = [''arn:aws:events:us-east-1:123456789012:event-bus/*''])"
proof -
  obtain cfg g where h:
    "bind \<lparr>parameterMapping = None, eventBus = None\<rparr> test_options = Inr (cfg, g)"
    using bind_fresh [OF test_options_fresh] by blast
  from bind_default_mapping_without_bus [OF h] h show ?thesis
    by (simp add: test_options_def test_stack_def)
qed

text \<open>
  Claim C3. When the caller supplied a custom parameter mapping, the parameter mapping of
  the returned configuration is that mapping, with no default entry merged in, whether or
  not an event bus was supplied.
\<close>

theorem bind_custom_mapping_verbatim:
  assumes "bind props options = Inr (cfg, g)"
    and "parameterMapping props = Some m"
  shows "parameterMapping_cfg cfg = m"
proof -
  from bind_cases [OF assms(1)] assms show ?thesis
    by auto
qed

theorem bind_custom_mapping_verbatim_witness:
  "(\<exists>cfg g. bind \<lparr>parameterMapping = Some test_custom_mapping, eventBus = Some imported_bus\<rparr>
              test_options = Inr (cfg, g)
      \<and> parameterMapping_cfg cfg = test_custom_mapping)
   \<and> (\<exists>cfg g. bind \<lparr>parameterMapping = Some test_custom_mapping, eventBus = None\<rparr>
              test_options = Inr (cfg, g)
      \<and> parameterMapping_cfg cfg = test_custom_mapping)
   \<and> test_custom_mapping =
       [(''Detail'', ''$request.body.detail''),
        (''DetailType'', ''$request.body.detailType''),
        (''Source'', ''$request.body.source''),
        (''EventBusName'', ''my-event-bus''),
        (''Resources'', ''$request.body.resources''),
        (''Time'', ''$request.body.time'')]"
proof -
  obtain cfg1 g1 where h1:
    "bind \<lparr>parameterMapping = Some test_custom_mapping, eventBus = Some imported_bus\<rparr>
       test_options = Inr (cfg1, g1)"
    using bind_fresh [OF test_options_fresh] by blast
  obtain cfg2 g2 where h2:
    "bind \<lparr>parameterMapping = Some test_custom_mapping, eventBus = None\<rparr>
       test_options = Inr (cfg2, g2)"
    using bind_fresh [OF test_options_fresh] by blast
  have m: "test_custom_mapping =
       [(''Detail'', ''$request.body.detail''),
        (''DetailType'', ''$request.body.detailType''),
        (''Source'', ''$request.body.source''),
        (''EventBusName'', ''my-event-bus''),
        (''Resources'', ''$request.body.resources''),
        (''Time'', ''$request.body.time'')]"
    by (simp add: test_custom_mapping_def custom_def ParameterMapping_new_def imported_bus_def)
  from bind_custom_mapping_verbatim [OF h1] bind_custom_mapping_verbatim [OF h2] h1 h2 m
  show ?thesis by simp
qed

subsection \<open>The role and its statement\<close>

text \<open>
  Claim C4. The statement attached to the created role has effect \<open>Allow\<close>, the single
  action \<open>events:PutEvents\<close> and exactly one resource: the ARN of the supplied bus, or the
  wildcard ARN when no bus was supplied.
\<close>

theorem bind_single_grant:
  assumes "bind props options = Inr (cfg, g)"
  shows "\<exists>r role st. credentials cfg = fromRole r \<and> lookupRole g r = Some role
           \<and> policy role = [st]
           \<and> st_effect st = ALLOW
           \<and> st_actions st = [''events:PutEvents'']
           \<and> length (st_resources st) = 1
           \<and> st_resources st =
               (case eventBus props of
                  Some bus \<Rightarrow> [eventBusArn bus]
                | None \<Rightarrow>
                    [''arn:'' @ partition_s (stack (route options)) @ '':events:''
                       @ region (stack (route options)) @ '':''
                       @ account (stack (route options)) @ '':event-bus/*''])"
proof -
  from bind_cases [OF assms(1)] assms show ?thesis
    by (auto simp add: lookupRole_created split: option.splits)
qed

theorem bind_single_grant_witness:
  "\<exists>cfg g. bind \<lparr>parameterMapping = None, eventBus = Some imported_bus\<rparr> test_options
             = Inr (cfg, g)
     \<and> (\<exists>r role st. credentials cfg = fromRole r \<and> lookupRole g r = Some role
           \<and> policy role = [st]
           \<and> st_effect st = ALLOW
           \<and> st_actions st = [''events:PutEvents'']
           \<and> length (st_resources st) = 1
           \<and> st_resources st =
               [''arn:aws:events:us-east-1:123456789012:event-bus/my-event-bus''])"
proof -
  obtain cfg g where h:
    "bind \<lparr>parameterMapping = None, eventBus = Some imported_bus\<rparr> test_options = Inr (cfg, g)"
    using bind_fresh [OF test_options_fresh] by blast
  from bind_single_grant [OF h] h show ?thesis
    by (simp add: imported_bus_def imported_arn_def)
qed



subsection \<open>The returned configuration\<close>

text \<open>
  Claim C6. The returned configuration has the fixed fields type \<open>AWS_PROXY\<close>, subtype
  \<open>EventBridge-PutEvents\<close>, payload format version \<open>1.0\<close> and connection type
  \<open>INTERNET\<close>, and its credentials refer to the role created in the same invocation: a
  role that the scope did not hold before and holds afterwards, trusted by the API gateway
  service principal.
\<close>

theorem bind_fixed_fields:
  assumes "bind props options = Inr (cfg, g)"
  shows "type cfg = ''AWS_PROXY''
         \<and> subtype cfg = ''EventBridge-PutEvents''
         \<and> payloadFormatVersion cfg = ''1.0''
         \<and> connectionType cfg = ''INTERNET''
         \<and> (\<exists>r role. credentials cfg = fromRole r
               \<and> lookupRole (scope options) r = None
               \<and> lookupRole g r = Some role
               \<and> map st_principals (assumeRolePolicy role)
                    = [[ServicePrincipal ''apigateway.amazonaws.com'']])"
proof -
  note c = bind_cases [OF assms]
  from c have fresh: "map_of (children (scope options)) ''InvokeRole'' = None"
    by (rule conjunct1)
  have before: "lookupRole (scope options)
                  \<lparr>refScope = path (scope options), refId = ''InvokeRole''\<rparr> = None"
    using fresh by (simp add: lookupRole_def)
  from c assms before show ?thesis
    by (auto simp add: lookupRole_created [OF fresh])
qed

theorem bind_fixed_fields_witness:
  "\<exists>cfg g. bind \<lparr>parameterMapping = Some test_custom_mapping, eventBus = None\<rparr> test_options
             = Inr (cfg, g)
     \<and> type cfg = ''AWS_PROXY''
     \<and> subtype cfg = ''EventBridge-PutEvents''
     \<and> payloadFormatVersion cfg = ''1.0''
     \<and> connectionType cfg = ''INTERNET''
     \<and> (\<exists>r role. credentials cfg = fromRole r
           \<and> lookupRole (scope test_options) r = None
           \<and> lookupRole g r = Some role
           \<and> map st_principals (assumeRolePolicy role)
                = [[ServicePrincipal ''apigateway.amazonaws.com'']])"
proof -
  obtain cfg g where h:
    "bind \<lparr>parameterMapping = Some test_custom_mapping, eventBus = None\<rparr> test_options
       = Inr (cfg, g)"
    using bind_fresh [OF test_options_fresh] by blast
  from bind_fixed_fields [OF h] h show ?thesis
    by simp
qed

text \<open>
  Claim C7. With no custom mapping and an event bus known only by its ARN, the value of
  \<open>EventBusName\<close> in the default mapping is the name parsed out of that ARN: for an ARN
  \<open>arn:p:s:r:a:rt/name\<close> it is \<open>name\<close>, and \<open>my-event-bus\<close> for
  \<open>arn:aws:events:us-east-1:123456789012:event-bus/my-event-bus\<close>.
\<close>

theorem bind_imported_bus_name:
  assumes "CHR '':'' \<notin> set p" and "CHR '':'' \<notin> set s" and "CHR '':'' \<notin> set r"
    and "CHR '':'' \<notin> set a" and "CHR ''/'' \<notin> set rt"
    and "arn = ''arn:'' @ p @ '':'' @ s @ '':'' @ r @ '':'' @ a @ '':'' @ rt @ ''/'' @ name"
    and "map_of (children (scope options)) ''InvokeRole'' = None"
  shows "\<exists>bus cfg g.
           fromEventBusArn arn = Some bus
           \<and> bind \<lparr>parameterMapping = None, eventBus = Some bus\<rparr> options = Inr (cfg, g)
           \<and> map_of (parameterMapping_cfg cfg) ''EventBusName'' = Some name"
proof -
  have parsed: "parseResourceName arn = Some name"
    unfolding assms(6) using assms(1-5) by (rule parseResourceName_wellformed)
  then have bus: "fromEventBusArn arn = Some \<lparr>eventBusArn = arn, eventBusName = name\<rparr>"
    by (simp add: fromEventBusArn_def)
  show ?thesis
    using bus bind_fresh [OF assms(7), of "\<lparr>parameterMapping = None, eventBus = Some \<lparr>eventBusArn = arn, eventBusName = name\<rparr>\<rparr>"]
    by (simp add: default_mapping_with_bus)
qed

theorem bind_imported_bus_name_witness:
  "\<exists>bus cfg g.
     fromEventBusArn ''arn:aws:events:us-east-1:123456789012:event-bus/my-event-bus'' = Some bus
     \<and> bind \<lparr>parameterMapping = None, eventBus = Some bus\<rparr> test_options = Inr (cfg, g)
     \<and> map_of (parameterMapping_cfg cfg) ''EventBusName'' = Some ''my-event-bus''"
proof -
  have "\<exists>bus cfg g.
     fromEventBusArn (''arn:'' @ ''aws'' @ '':'' @ ''events'' @ '':'' @ ''us-east-1'' @ '':''
         @ ''123456789012'' @ '':'' @ ''event-bus'' @ ''/'' @ ''my-event-bus'') = Some bus
     \<and> bind \<lparr>parameterMapping = None, eventBus = Some bus\<rparr> test_options = Inr (cfg, g)
     \<and> map_of (parameterMapping_cfg cfg) ''EventBusName'' = Some ''my-event-bus''"
    by (rule bind_imported_bus_name [OF _ _ _ _ _ refl test_options_fresh]) simp_all
  then show ?thesis by simp
qed

subsection \<open>Failure and determinism\<close>

text \<open>
  Claim C8, amended. \<open>bind\<close> has a defined result for every combination of its optional
  inputs (event bus present or absent, custom mapping present or absent) and every scope,
  and no error condition of its own. On a scope that holds no child \<open>InvokeRole\<close> it
  returns the configuration, with its fixed fields, the credentials for the new role and
  the mapping the properties decide, and the scope with the one role added. On a scope
  that already holds a child of that id it fails with the duplicate-id error of the role's
  constructor, before it has changed anything.
\<close>

theorem bind_result:
  "bind props options =
     (case map_of (children (scope options)) ''InvokeRole'' of
        Some c \<Rightarrow> Inl (DuplicateConstructId ''InvokeRole'')
      | None \<Rightarrow>
          Inr (\<lparr>payloadFormatVersion = ''1.0'', type = ''AWS_PROXY'',
                subtype = ''EventBridge-PutEvents'',
                credentials =
                  fromRole \<lparr>refScope = path (scope options), refId = ''InvokeRole''\<rparr>,
                connectionType = ''INTERNET'',
                parameterMapping_cfg =
                  (case parameterMapping props of
                     Some m \<Rightarrow> m
                   | None \<Rightarrow>
                       (case eventBus props of
                          Some bus \<Rightarrow>
                            [(''Detail'', ''$request.body.Detail''),
                             (''DetailType'', ''$request.body.DetailType''),
                             (''Source'', ''$request.body.Source''),
                             (''EventBusName'', eventBusName bus)]
                        | None \<Rightarrow>
                            [(''Detail'', ''$request.body.Detail''),
                             (''DetailType'', ''$request.body.DetailType''),
                             (''Source'', ''$request.body.Source'')]))\<rparr>,
               (scope options)\<lparr>children := children (scope options) @
                  [(''InvokeRole'',
                    RoleChild
                      \<lparr>assumeRolePolicy =
                         [\<lparr>st_effect = ALLOW, st_sid = None,
                           st_principals = [ServicePrincipal ''apigateway.amazonaws.com''],
                           st_actions = [''sts:AssumeRole''], st_resources = []\<rparr>],
                       policy =
                         [\<lparr>st_effect = ALLOW, st_sid = Some ''AllowEventBridgePutEvents'',
                           st_principals = [], st_actions = [''events:PutEvents''],
                           st_resources =
                             [case eventBus props of
                                Some bus \<Rightarrow> eventBusArn bus
                              | None \<Rightarrow>
                                  ''arn:'' @ partition_s (stack (route options)) @ '':events:''
                                    @ region (stack (route options)) @ '':''
                                    @ account (stack (route options))
                                    @ '':event-bus/*'']\<rparr>]\<rparr>)]\<rparr>))"
proof (cases "map_of (children (scope options)) ''InvokeRole''")
  case None
  from bind_fresh [OF None, of props] None show ?thesis
    by (simp add: default_mapping_with_bus default_mapping_without_bus split: option.splits)
next
  case (Some c)
  from bind_taken [OF Some, of props] Some show ?thesis
    by simp
qed

theorem bind_result_witness:
  "(\<exists>cfg g. bind \<lparr>parameterMapping = None, eventBus = None\<rparr> test_options = Inr (cfg, g)
      \<and> type cfg = ''AWS_PROXY''
      \<and> parameterMapping_cfg cfg =
           [(''Detail'', ''$request.body.Detail''),
            (''DetailType'', ''$request.body.DetailType''),
            (''Source'', ''$request.body.Source'')])
   \<and> (\<exists>cfg g. bind \<lparr>parameterMapping = None, eventBus = Some imported_bus\<rparr> test_options
                 = Inr (cfg, g)
      \<and> type cfg = ''AWS_PROXY''
      \<and> parameterMapping_cfg cfg =
           [(''Detail'', ''$request.body.Detail''),
            (''DetailType'', ''$request.body.DetailType''),
            (''Source'', ''$request.body.Source''),
            (''EventBusName'', ''my-event-bus'')])
   \<and> (\<exists>cfg g. bind \<lparr>parameterMapping = Some test_custom_mapping, eventBus = None\<rparr> test_options
                 = Inr (cfg, g)
      \<and> type cfg = ''AWS_PROXY''
      \<and> parameterMapping_cfg cfg = test_custom_mapping)
   \<and> (\<exists>cfg g. bind \<lparr>parameterMapping = Some test_custom_mapping, eventBus = Some imported_bus\<rparr>
                   test_options = Inr (cfg, g)
      \<and> type cfg = ''AWS_PROXY''
      \<and> parameterMapping_cfg cfg = test_custom_mapping)
   \<and> bind \<lparr>parameterMapping = None, eventBus = Some imported_bus\<rparr>
        \<lparr>route = \<lparr>stack = test_stack\<rparr>,
         scope = \<lparr>path = ''stack/EventBridgeRoute'',
                  children = [(''Resource'', OtherChild ''AWS::ApiGatewayV2::Route''),
                              (''InvokeRole'', RoleChild \<lparr>assumeRolePolicy = [], policy = []\<rparr>)]\<rparr>\<rparr>
        = Inl (DuplicateConstructId ''InvokeRole'')"
proof -
  have h: "map_of (children (scope test_options)) ''InvokeRole'' = None"
    by (simp add: test_options_def)
  show ?thesis
    using h
      bind_result [of "\<lparr>parameterMapping = None, eventBus = None\<rparr>" test_options]
      bind_result [of "\<lparr>parameterMapping = None, eventBus = Some imported_bus\<rparr>" test_options]
      bind_result [of "\<lparr>parameterMapping = Some test_custom_mapping, eventBus = None\<rparr>" test_options]
      bind_result [of "\<lparr>parameterMapping = Some test_custom_mapping, eventBus = Some imported_bus\<rparr>" test_options]
      bind_result [of "\<lparr>parameterMapping = None, eventBus = Some imported_bus\<rparr>"
        "\<lparr>route = \<lparr>stack = test_stack\<rparr>,
         scope = \<lparr>path = ''stack/EventBridgeRoute'',
                  children = [(''Resource'', OtherChild ''AWS::ApiGatewayV2::Route''),
                              (''InvokeRole'', RoleChild \<lparr>assumeRolePolicy = [], policy = []\<rparr>)]\<rparr>\<rparr>"]
    by (simp add: imported_bus_def)
qed

text \<open>
  As C8 was first stated, without the condition on the scope, it fails: on a scope where
  the id \<open>InvokeRole\<close> is taken, \<open>bind\<close> returns no configuration.
\<close>

theorem bind_fails_on_taken_id_counterexample:
  "bind \<lparr>parameterMapping = None, eventBus = None\<rparr>
     \<lparr>route = \<lparr>stack = test_stack\<rparr>,
      scope = \<lparr>path = ''stack/EventBridgeRoute'',
               children = [(''InvokeRole'', OtherChild ''AWS::SQS::Queue'')]\<rparr>\<rparr>
   = Inl (DuplicateConstructId ''InvokeRole'')"
  by (simp add: bind_def Role_new_def)

text \<open>
  Claim C9, amended. \<open>bind\<close> is deterministic on scopes that can take the role: two
  invocations with the same optional event bus and the same optional custom mapping, each
  on a scope of the same path that holds no child \<open>InvokeRole\<close>, return equal
  configurations, whatever the routes and the other children of the scopes are. The
  configuration refers to the role \<open>InvokeRole\<close> under that path, which the scope holds
  afterwards, and carries the mapping that the properties decide. An invocation on the
  scope as the first one left it returns no configuration: it fails with the duplicate-id
  error.
\<close>

theorem bind_deterministic_on_fresh_scopes:
  assumes "map_of (children (scope options1)) ''InvokeRole'' = None"
    and "map_of (children (scope options2)) ''InvokeRole'' = None"
    and "path (scope options1) = path (scope options2)"
  shows "\<exists>cfg g1 g2.
           bind props options1 = Inr (cfg, g1)
           \<and> bind props options2 = Inr (cfg, g2)
           \<and> credentials cfg = fromRole \<lparr>refScope = path (scope options1), refId = ''InvokeRole''\<rparr>
           \<and> parameterMapping_cfg cfg =
               (case parameterMapping props of
                  Some m \<Rightarrow> m
                | None \<Rightarrow> createDefaultParameterMapping props)
           \<and> (\<exists>role. lookupRole g1 \<lparr>refScope = path (scope options1), refId = ''InvokeRole''\<rparr>
                         = Some role)
           \<and> bind props \<lparr>route = route options1, scope = g1\<rparr>
               = Inl (DuplicateConstructId ''InvokeRole'')"
proof -
  note b1 = bind_fresh [OF assms(1), of props]
  note b2 = bind_fresh [OF assms(2), of props]
  let ?g1 = "snd (projr (bind props options1))"
  have taken: "\<exists>c. map_of (children (scope \<lparr>route = route options1, scope = ?g1\<rparr>)) ''InvokeRole''
                 = Some c"
    using assms(1) by (simp add: b1 map_add_def)
  then obtain c where
    "map_of (children (scope \<lparr>route = route options1, scope = ?g1\<rparr>)) ''InvokeRole'' = Some c"
    by blast
  from bind_taken [OF this, of props]
  have second: "bind props \<lparr>route = route options1, scope = ?g1\<rparr>
                  = Inl (DuplicateConstructId ''InvokeRole'')" .
  have look: "\<exists>role. lookupRole ?g1 \<lparr>refScope = path (scope options1), refId = ''InvokeRole''\<rparr>
                = Some role"
    by (simp add: b1 lookupRole_created [OF assms(1)])
  show ?thesis
    using second look by (simp add: b1 b2 assms(3))
qed

theorem bind_deterministic_on_fresh_scopes_witness:
  "\<exists>cfg g1 g2.
     bind \<lparr>parameterMapping = None, eventBus = Some imported_bus\<rparr> test_options = Inr (cfg, g1)
     \<and> bind \<lparr>parameterMapping = None, eventBus = Some imported_bus\<rparr>
          \<lparr>route = \<lparr>stack = \<lparr>partition_s = ''aws-cn'', region = ''cn-north-1'',
                              account = ''210987654321''\<rparr>\<rparr>,
           scope = \<lparr>path = ''stack/EventBridgeRoute'', children = []\<rparr>\<rparr> = Inr (cfg, g2)
     \<and> credentials cfg = fromRole \<lparr>refScope = ''stack/EventBridgeRoute'', refId = ''InvokeRole''\<rparr>
     \<and> parameterMapping_cfg cfg =
           [(''Detail'', ''$request.body.Detail''),
            (''DetailType'', ''$request.body.DetailType''),
            (''Source'', ''$request.body.Source''),
            (''EventBusName'', ''my-event-bus'')]
     \<and> (\<exists>role. lookupRole g1 \<lparr>refScope = ''stack/EventBridgeRoute'', refId = ''InvokeRole''\<rparr>
                   = Some role)
     \<and> bind \<lparr>parameterMapping = None, eventBus = Some imported_bus\<rparr>
          \<lparr>route = \<lparr>stack = test_stack\<rparr>, scope = g1\<rparr>
         = Inl (DuplicateConstructId ''InvokeRole'')"
proof -
  have h1: "map_of (children (scope test_options)) ''InvokeRole'' = None"
    by (simp add: test_options_def)
  have h2: "map_of (children (scope
              \<lparr>route = \<lparr>stack = \<lparr>partition_s = ''aws-cn'', region = ''cn-north-1'',
                              account = ''210987654321''\<rparr>\<rparr>,
               scope = \<lparr>path = ''stack/EventBridgeRoute'', children = []\<rparr>\<rparr>)) ''InvokeRole'' = None"
    by simp
  have h3: "path (scope test_options) = path (scope
              \<lparr>route = \<lparr>stack = \<lparr>partition_s = ''aws-cn'', region = ''cn-north-1'',
                              account = ''210987654321''\<rparr>\<rparr>,
               scope = \<lparr>path = ''stack/EventBridgeRoute'', children = []\<rparr>\<rparr>)"
    by (simp add: test_options_def)
  from bind_deterministic_on_fresh_scopes
         [OF h1 h2 h3, of "\<lparr>parameterMapping = None, eventBus = Some imported_bus\<rparr>"]
  show ?thesis
    by (simp add: test_options_def default_mapping_with_bus imported_bus_def)
qed

text \<open>
  As C9 was first stated, for any two invocations with the same inputs, it fails: the
  first invocation changes the scope it shares with the second, and the second, with the
  same properties, route and scope, returns no configuration.
\<close>

theorem bind_second_invocation_counterexample:
  "bind \<lparr>parameterMapping = None, eventBus = Some imported_bus\<rparr>
     \<lparr>route = \<lparr>stack = test_stack\<rparr>,
      scope = \<lparr>path = ''stack/EventBridgeRoute'', children = []\<rparr>\<rparr>
   = Inr (\<lparr>payloadFormatVersion = ''1.0'', type = ''AWS_PROXY'',
           subtype = ''EventBridge-PutEvents'',
           credentials = fromRole \<lparr>refScope = ''stack/EventBridgeRoute'', refId = ''InvokeRole''\<rparr>,
           connectionType = ''INTERNET'',
           parameterMapping_cfg =
             [(''Detail'', ''$request.body.Detail''),
              (''DetailType'', ''$request.body.DetailType''),
              (''Source'', ''$request.body.Source''),
              (''EventBusName'', ''my-event-bus'')]\<rparr>,
          \<lparr>path = ''stack/EventBridgeRoute'',
           children =
             [(''InvokeRole'',
               RoleChild
                 \<lparr>assumeRolePolicy =
                    [\<lparr>st_effect = ALLOW, st_sid = None,
                      st_principals = [ServicePrincipal ''apigateway.amazonaws.com''],
                      st_actions = [''sts:AssumeRole''], st_resources = []\<rparr>],
                  policy =
                    [\<lparr>st_effect = ALLOW, st_sid = Some ''AllowEventBridgePutEvents'',
                      st_principals = [], st_actions = [''events:PutEvents''],
                      st_resources =
                        [''arn:aws:events:us-east-1:123456789012:event-bus/my-event-bus'']\<rparr>]\<rparr>)]\<rparr>)
   \<and> bind \<lparr>parameterMapping = None, eventBus = Some imported_bus\<rparr>
        \<lparr>route = \<lparr>stack = test_stack\<rparr>,
         scope =
           \<lparr>path = ''stack/EventBridgeRoute'',
            children =
              [(''InvokeRole'',
                RoleChild
                  \<lparr>assumeRolePolicy =
                     [\<lparr>st_effect = ALLOW, st_sid = None,
                       st_principals = [ServicePrincipal ''apigateway.amazonaws.com''],
                       st_actions = [''sts:AssumeRole''], st_resources = []\<rparr>],
                   policy =
                     [\<lparr>st_effect = ALLOW, st_sid = Some ''AllowEventBridgePutEvents'',
                       st_principals = [], st_actions = [''events:PutEvents''],
                       st_resources =
                         [''arn:aws:events:us-east-1:123456789012:event-bus/my-event-bus'']\<rparr>]\<rparr>)]\<rparr>\<rparr>
      = Inl (DuplicateConstructId ''InvokeRole'')"
  by (simp add: bind_def Role_new_def addToPolicy_def PolicyStatement_new_def
      assumeRoleStatement_def createDefaultParameterMapping_def custom_def
      ParameterMapping_new_def VERSION_1_0_def AWS_PROXY_def EVENTBRIDGE_PUT_EVENTS_def
      INTERNET_def imported_bus_def imported_arn_def)

text \<open>
  Claim C10. The role is created with the fixed id \<open>InvokeRole\<close> under the scope of the
  options, so \<open>bind\<close> returns exactly when that scope holds no child of that id; after an
  invocation that returned, the scope holds the role under that id, and a second
  invocation on the same scope fails with the duplicate-id error, whatever its properties
  and route are.
\<close>

theorem bind_fixed_role_id:
  "((\<exists>cfg g. bind props options = Inr (cfg, g))
      \<longleftrightarrow> map_of (children (scope options)) ''InvokeRole'' = None)
   \<and> (\<forall>cfg g. bind props options = Inr (cfg, g) \<longrightarrow>
         credentials cfg = fromRole \<lparr>refScope = path (scope options), refId = ''InvokeRole''\<rparr>
         \<and> path g = path (scope options)
         \<and> (\<exists>role. map_of (children g) ''InvokeRole'' = Some (RoleChild role))
         \<and> bind props' \<lparr>route = route', scope = g\<rparr> = Inl (DuplicateConstructId ''InvokeRole''))"
proof (intro conjI allI impI iffI)
  assume "\<exists>cfg g. bind props options = Inr (cfg, g)"
  then show "map_of (children (scope options)) ''InvokeRole'' = None"
    using bind_Inr_fresh by blast
next
  assume "map_of (children (scope options)) ''InvokeRole'' = None"
  from bind_fresh [OF this, of props] show "\<exists>cfg g. bind props options = Inr (cfg, g)"
    by blast
next
  fix cfg g
  assume b: "bind props options = Inr (cfg, g)"
  note c = bind_cases [OF b]
  from c b show "credentials cfg = fromRole \<lparr>refScope = path (scope options), refId = ''InvokeRole''\<rparr>"
    by auto
  from c b show "path g = path (scope options)"
    by auto
  from c b have r: "\<exists>role. map_of (children g) ''InvokeRole'' = Some (RoleChild role)"
    by (auto simp add: map_add_def)
  then show "\<exists>role. map_of (children g) ''InvokeRole'' = Some (RoleChild role)" .
  from r obtain role where "map_of (children (scope \<lparr>route = route', scope = g\<rparr>)) ''InvokeRole'' = Some (RoleChild role)"
    by auto
  then show "bind props' \<lparr>route = route', scope = g\<rparr> = Inl (DuplicateConstructId ''InvokeRole'')"
    by (rule bind_taken)
qed

theorem bind_fixed_role_id_witness:
  "\<exists>cfg g. bind \<lparr>parameterMapping = None, eventBus = Some imported_bus\<rparr> test_options
             = Inr (cfg, g)
     \<and> credentials cfg = fromRole \<lparr>refScope = ''stack/EventBridgeRoute'', refId = ''InvokeRole''\<rparr>
     \<and> path g = ''stack/EventBridgeRoute''
     \<and> (\<exists>role. map_of (children g) ''InvokeRole'' = Some (RoleChild role))
     \<and> bind \<lparr>parameterMapping = None, eventBus = Some imported_bus\<rparr>
          \<lparr>route = \<lparr>stack = test_stack\<rparr>, scope = g\<rparr>
         = Inl (DuplicateConstructId ''InvokeRole'')"
proof -
  obtain cfg g where h:
    "bind \<lparr>parameterMapping = None, eventBus = Some imported_bus\<rparr> test_options = Inr (cfg, g)"
    using bind_fresh [OF test_options_fresh] by blast
  from bind_fixed_role_id
         [of "\<lparr>parameterMapping = None, eventBus = Some imported_bus\<rparr>" test_options
             "\<lparr>parameterMapping = None, eventBus = Some imported_bus\<rparr>"
             "\<lparr>stack = test_stack\<rparr>"]
  have "credentials cfg = fromRole \<lparr>refScope = path (scope test_options), refId = ''InvokeRole''\<rparr>
         \<and> path g = path (scope test_options)
         \<and> (\<exists>role. map_of (children g) ''InvokeRole'' = Some (RoleChild role))
         \<and> bind \<lparr>parameterMapping = None, eventBus = Some imported_bus\<rparr>
              \<lparr>route = \<lparr>stack = test_stack\<rparr>, scope = g\<rparr>
             = Inl (DuplicateConstructId ''InvokeRole'')"
    using h by blast
  with h show ?thesis
    by (simp add: test_options_def)
qed

end
